theory Spec2Isabelle
  imports Main "HOL-Library.Word"
begin

section \<open>scripts/install_dev_python_modules.py\<close>

text \<open>
  The script builds two pip commands from three inputs (the interpreter version, the
  operating-system name and the optional command-line argument), starts each command as a
  subprocess and copies the subprocess's output to the console.

  The inputs the source reads from its environment are parameters of the model:
  \<^item> \<^verbatim>\<open>sys.version_info\<close>, a five-field named tuple;
  \<^item> \<^verbatim>\<open>os.name\<close>, a string;
  \<^item> \<^verbatim>\<open>sys.argv\<close>, a list of strings;
  \<^item> for each subprocess, what \<^verbatim>\<open>p.stdout.readline()\<close> and \<^verbatim>\<open>p.poll()\<close> return
    in each iteration of the read loop.
\<close>

subsection \<open>Strings and bytes\<close>

text \<open>
  A Python \<^verbatim>\<open>str\<close> is a sequence of Unicode code points, a \<^verbatim>\<open>bytes\<close> value a
  sequence of 8-bit values. \<open>lit\<close> reads an ASCII literal of the source as a \<^verbatim>\<open>str\<close>.
\<close>

type_synonym str = "nat list"
type_synonym bytes = "8 word list"

definition lit :: "string \<Rightarrow> str" where
  "lit s = map of_char s"

text \<open>\<^verbatim>\<open>sep.join(xs)\<close>\<close>

fun join :: "str \<Rightarrow> str list \<Rightarrow> str" where
  "join sep [] = []"
| "join sep [x] = x"
| "join sep (x # y # ys) = x @ sep @ join sep (y # ys)"

subsection \<open>The version gate\<close>

text \<open>
  \<^verbatim>\<open>sys.version_info\<close> is the tuple (major, minor, micro, releaselevel, serial).
\<close>

record version_info =
  major :: int
  minor :: int
  micro :: int
  releaselevel :: str
  serial :: int

text \<open>
  Python compares tuples lexicographically: the first pair of unequal items decides, and
  when one tuple is a prefix of the other the longer one is the greater.
\<close>

fun tuple_ge :: "int list \<Rightarrow> int list \<Rightarrow> bool" where
  "tuple_ge xs [] = True"
| "tuple_ge [] (y # ys) = False"
| "tuple_ge (x # xs) (y # ys) = (if x = y then tuple_ge xs ys else y < x)"

text \<open>
  \<^verbatim>\<open>def is_39(): return sys.version_info >= (3, 9)\<close>

  The right-hand tuple has two items, so the comparison never reaches the string-valued
  \<^verbatim>\<open>releaselevel\<close>: only the integer prefix of the version is passed on.
\<close>

definition is_39 :: "version_info \<Rightarrow> bool" where
  "is_39 v = tuple_ge [major v, minor v, micro v] [3, 9]"

subsection \<open>The install target list\<close>

text \<open>The literal list of lines 54 to 92 of the source.\<close>

definition common_targets :: "str list" where
  "common_targets =
    [lit ''awscli'',
     lit ''-e python_modules/dagster[test]'',
     lit ''-e python_modules/dagster-graphql'',
     lit ''-e python_modules/dagster-test'',
     lit ''-e python_modules/dagit'',
     lit ''-e python_modules/automation'',
     lit ''-e python_modules/libraries/dagster-pandas'',
     lit ''-e python_modules/libraries/dagster-aws[test]'',
     lit ''-e python_modules/libraries/dagster-celery'',
     lit ''-e python_modules/libraries/dagster-celery-docker'',
     lit ''-e python_modules/libraries/dagster-cron'',
     lit (''-e '' @ [CHR 0x22] @ ''python_modules/libraries/dagster-dask[yarn,pbs,kube]'' @ [CHR 0x22]),
     lit ''-e python_modules/libraries/dagster-datadog'',
     lit ''-e python_modules/libraries/dagster-dbt'',
     lit ''-e python_modules/libraries/dagster-docker'',
     lit ''-e python_modules/libraries/dagster-gcp'',
     lit ''-e python_modules/libraries/dagster-k8s'',
     lit ''-e python_modules/libraries/dagster-celery-k8s'',
     lit ''-e python_modules/libraries/dagster-github'',
     lit ''-e python_modules/libraries/dagster-mysql'',
     lit ''-e python_modules/libraries/dagster-pagerduty'',
     lit ''-e python_modules/libraries/dagster-papertrail'',
     lit ''-e python_modules/libraries/dagster-postgres'',
     lit ''-e python_modules/libraries/dagster-prometheus'',
     lit ''-e python_modules/libraries/dagster-spark'',
     lit ''-e python_modules/libraries/dagster-pyspark'',
     lit ''-e python_modules/libraries/dagster-databricks'',
     lit ''-e python_modules/libraries/dagster-shell'',
     lit ''-e python_modules/libraries/dagster-slack'',
     lit ''-e python_modules/libraries/dagster-ssh'',
     lit ''-e python_modules/libraries/dagster-twilio'',
     lit ''-e python_modules/libraries/lakehouse'',
     lit ''-e python_modules/libraries/dagster-airflow'',
     lit ''-e integration_tests/python_modules/dagster-k8s-test-infra'',
     lit ''-r scala_modules/scripts/requirements.txt'',
     lit ''-e python_modules/libraries/dagster-azure'',
     lit ''-e helm/dagster/schema[test]'']"

text \<open>
  Lines 46 to 104: the list starts empty and each gate appends to it.
  \<^verbatim>\<open>
  install_targets = []
  if is_39():
      install_targets += ["Cython==0.29.21", "numpy==1.18.5"]
  install_targets += [ ... ]
  if not os.name == "nt":
      install_targets += ["-e python_modules/libraries/dagster-ge"]
  if not is_39():
      install_targets += [ ... ]
  \<close>
\<close>

definition install_targets :: "version_info \<Rightarrow> str \<Rightarrow> str list" where
  "install_targets v os_name =
    (let ts = [];
         ts = (if is_39 v then ts @ [lit ''Cython==0.29.21'', lit ''numpy==1.18.5''] else ts);
         ts = ts @ common_targets;
         ts = (if \<not> os_name = lit ''nt''
               then ts @ [lit ''-e python_modules/libraries/dagster-ge''] else ts);
         ts = (if \<not> is_39 v
               then ts @ [lit ''-e python_modules/libraries/dagster-snowflake'',
                          lit ''-e python_modules/libraries/dagstermill'',
                          lit (''-e '' @ [CHR 0x22] @ ''examples/airline_demo[full]'' @ [CHR 0x22])]
               else ts)
     in ts)"

subsection \<open>The two commands\<close>

text \<open>
  Lines 33 to 35. \<^verbatim>\<open>if quiet:\<close> tests a string, which is true when it is non-empty.
  \<^verbatim>\<open>
  cmd = ["pip", "--no-cache-dir", "install", "pyspark>=3.0.1"]
  if quiet:
      cmd.append(quiet)
  \<close>
\<close>

definition first_cmd :: "str \<Rightarrow> str list" where
  "first_cmd quiet =
    (let cmd = [lit ''pip'', lit ''--no-cache-dir'', lit ''install'', lit ''pyspark>=3.0.1''];
         cmd = (if quiet \<noteq> [] then cmd @ [quiet] else cmd)
     in cmd)"

text \<open>
  Lines 117 to 125.
  \<^verbatim>\<open>
  cmd = ["pip", "install", "--no-deps"] + install_targets
  if quiet:
      cmd.append(quiet)
  cmd += ["&&", "pip", "install"] + install_targets
  if quiet:
      cmd.append(quiet)
  \<close>
\<close>

definition second_cmd :: "str \<Rightarrow> str list \<Rightarrow> str list" where
  "second_cmd quiet targets =
    (let cmd = [lit ''pip'', lit ''install'', lit ''--no-deps''] @ targets;
         cmd = (if quiet \<noteq> [] then cmd @ [quiet] else cmd);
         cmd = cmd @ ([lit ''&&'', lit ''pip'', lit ''install''] @ targets);
         cmd = (if quiet \<noteq> [] then cmd @ [quiet] else cmd)
     in cmd)"

subsection \<open>Subprocesses and the console\<close>

text \<open>
  A call of \<^verbatim>\<open>subprocess.Popen\<close>: the command (an argument vector, or one string handed
  to the shell when \<^verbatim>\<open>shell=True\<close>) and where the two output streams go.
\<close>

datatype popen_args = Argv "str list" | Shell_Line str

datatype redirect = PIPE | STDOUT | Inherited

record popen_call =
  args :: popen_args
  stdout :: redirect
  stderr :: redirect
  shell :: bool

text \<open>
  What main does to the outside world, in the order it does it. The two subprocesses are
  numbered 1 and 2 (the source binds both to the variable \<^verbatim>\<open>p\<close>, one after the other).
\<close>

datatype event =
    Popen nat popen_call
  | Print str
  | Readline nat bytes
  | Poll nat "int option"

text \<open>
  How a call of main ends within the observed behaviour of the subprocesses: it returns,
  it raises, or it is still in a read loop when the observations end (a subprocess that
  never signals completion keeps main in the loop for ever).
\<close>

datatype py_error = UnicodeDecodeError

datatype outcome = Returned | Raised py_error | Still_Reading

text \<open>
  The behaviour of one subprocess, as the read loop sees it: for each iteration, the bytes
  that \<^verbatim>\<open>p.stdout.readline()\<close> returns (empty at end of file) and the value of
  \<^verbatim>\<open>p.poll()\<close> that follows (\<open>None\<close> while the process runs, its exit code afterwards).
\<close>

type_synonym observation = "bytes \<times> int option"

subsection \<open>Decoding and stripping\<close>

text \<open>
  \<^verbatim>\<open>output.decode("utf-8")\<close> is the strict decoder of the Python library: it returns the
  code points of a well-formed UTF-8 byte sequence and raises UnicodeDecodeError on any
  other. \<open>utf8_char\<close> reads one code point that starts with the byte \<open>b0\<close> and gives it
  with the number of continuation bytes it took.
\<close>

definition cont :: "nat \<Rightarrow> bool" where
  "cont b \<longleftrightarrow> 0x80 \<le> b \<and> b \<le> 0xBF"

definition utf8_char :: "nat \<Rightarrow> nat list \<Rightarrow> (nat \<times> nat) option" where
  "utf8_char b0 bs =
    (if b0 < 0x80 then Some (b0, 0)
     else if 0xC2 \<le> b0 \<and> b0 \<le> 0xDF then
       (case bs of
          b1 # r \<Rightarrow>
            if cont b1 then Some ((b0 - 0xC0) * 0x40 + (b1 - 0x80), 1) else None
        | _ \<Rightarrow> None)
     else if 0xE0 \<le> b0 \<and> b0 \<le> 0xEF then
       (case bs of
          b1 # b2 # r \<Rightarrow>
            if (if b0 = 0xE0 then 0xA0 else 0x80) \<le> b1 \<and>
               b1 \<le> (if b0 = 0xED then 0x9F else 0xBF) \<and> cont b2
            then Some ((b0 - 0xE0) * 0x1000 + (b1 - 0x80) * 0x40 + (b2 - 0x80), 2)
            else None
        | _ \<Rightarrow> None)
     else if 0xF0 \<le> b0 \<and> b0 \<le> 0xF4 then
       (case bs of
          b1 # b2 # b3 # r \<Rightarrow>
            if (if b0 = 0xF0 then 0x90 else 0x80) \<le> b1 \<and>
               b1 \<le> (if b0 = 0xF4 then 0x8F else 0xBF) \<and> cont b2 \<and> cont b3
            then Some ((b0 - 0xF0) * 0x40000 + (b1 - 0x80) * 0x1000 +
                       (b2 - 0x80) * 0x40 + (b3 - 0x80), 3)
            else None
        | _ \<Rightarrow> None)
     else None)"

fun utf8 :: "nat list \<Rightarrow> str option" where
  "utf8 [] = Some []"
| "utf8 (b0 # bs) =
    (case utf8_char b0 bs of
       None \<Rightarrow> None
     | Some (c, n) \<Rightarrow> map_option ((#) c) (utf8 (drop n bs)))"

definition decode :: "bytes \<Rightarrow> str option" where
  "decode bs = utf8 (map unat bs)"

text \<open>
  \<^verbatim>\<open>s.strip()\<close> removes the white space at both ends of \<open>s\<close>; \<open>isspace\<close> lists the
  code points that Python counts as white space.
\<close>

definition isspace :: "nat \<Rightarrow> bool" where
  "isspace c \<longleftrightarrow>
     (0x09 \<le> c \<and> c \<le> 0x0D) \<or> (0x1C \<le> c \<and> c \<le> 0x20) \<or> c = 0x85 \<or> c = 0xA0 \<or>
     c = 0x1680 \<or> (0x2000 \<le> c \<and> c \<le> 0x200A) \<or> c = 0x2028 \<or> c = 0x2029 \<or>
     c = 0x202F \<or> c = 0x205F \<or> c = 0x3000"

definition strip :: "str \<Rightarrow> str" where
  "strip s = rev (dropWhile isspace (rev (dropWhile isspace s)))"

subsection \<open>The read loop\<close>

text \<open>
  Lines 39 to 44 and 131 to 136, for subprocess number \<open>k\<close>:
  \<^verbatim>\<open>
  while True:
      output = p.stdout.readline()
      if p.poll() is not None:
          break
      if output:
          print(output.decode("utf-8").strip())
  \<close>
  The function returns the events of the loop and how the loop ends. Each iteration
  consumes one observation; with none left the loop is still reading.
\<close>

fun read_loop :: "nat \<Rightarrow> observation list \<Rightarrow> event list \<times> outcome" where
  "read_loop k [] = ([], Still_Reading)"
| "read_loop k ((output, status) # rest) =
    (if status \<noteq> None then ([Readline k output, Poll k status], Returned)
     else if output \<noteq> [] then
       (case decode output of
          None \<Rightarrow> ([Readline k output, Poll k status], Raised UnicodeDecodeError)
        | Some s \<Rightarrow>
            (let (evs, r) = read_loop k rest
             in ([Readline k output, Poll k status, Print (strip s)] @ evs, r)))
     else
       (let (evs, r) = read_loop k rest
        in ([Readline k output, Poll k status] @ evs, r)))"

subsection \<open>main and the entry point\<close>

text \<open>
  The two calls of Popen, lines 37 and 127 to 129. Both pass
  \<^verbatim>\<open>stdout=subprocess.PIPE, stderr=subprocess.STDOUT\<close>; the second passes the joined
  command with \<^verbatim>\<open>shell=True\<close>.
\<close>

definition first_popen :: "str \<Rightarrow> popen_call" where
  "first_popen quiet =
    \<lparr>args = Argv (first_cmd quiet), stdout = PIPE, stderr = STDOUT, shell = False\<rparr>"

definition second_popen :: "str \<Rightarrow> version_info \<Rightarrow> str \<Rightarrow> popen_call" where
  "second_popen quiet v os_name =
    \<lparr>args = Shell_Line (join (lit '' '') (second_cmd quiet (install_targets v os_name))),
     stdout = PIPE, stderr = STDOUT, shell = True\<rparr>"

text \<open>
  \<^verbatim>\<open>main(quiet)\<close>, with the environment as further arguments: the interpreter version,
  the operating-system name and the observations of the two subprocesses. An exception in
  the first read loop ends main there, and a first loop that is still reading never lets
  main reach line 46.
\<close>

definition main :: "str \<Rightarrow> version_info \<Rightarrow> str \<Rightarrow> observation list \<Rightarrow> observation list
    \<Rightarrow> event list \<times> outcome" where
  "main quiet v os_name proc1 proc2 =
    (let start1 = [Popen 1 (first_popen quiet), Print (join (lit '' '') (first_cmd quiet))];
         (evs1, r1) = read_loop 1 proc1
     in if r1 \<noteq> Returned then (start1 @ evs1, r1)
        else
          (let cmd = second_cmd quiet (install_targets v os_name);
               start2 = [Popen 2 (second_popen quiet v os_name), Print (join (lit '' '') cmd)];
               (evs2, r2) = read_loop 2 proc2
           in (start1 @ evs1 @ start2 @ evs2, r2)))"

text \<open>
  Lines 139 and 140:
  \<^verbatim>\<open>main(quiet=sys.argv[1] if len(sys.argv) > 1 else "")\<close>
\<close>

definition script :: "str list \<Rightarrow> version_info \<Rightarrow> str \<Rightarrow> observation list \<Rightarrow> observation list
    \<Rightarrow> event list \<times> outcome" where
  "script argv = main (if length argv > 1 then argv ! 1 else lit '''')"

subsection \<open>Reading an event log\<close>

text \<open>The Popen calls, the printed lines and the subprocess an event belongs to.\<close>

fun popen_calls :: "event list \<Rightarrow> popen_call list" where
  "popen_calls [] = []"
| "popen_calls (Popen k c # es) = c # popen_calls es"
| "popen_calls (e # es) = popen_calls es"


text \<open>A final release of CPython, for concrete runs.\<close>

definition final_release :: "int \<Rightarrow> int \<Rightarrow> version_info" where
  "final_release ma mi =
    \<lparr>major = ma, minor = mi, micro = 0, releaselevel = lit ''final'', serial = 0\<rparr>"

fun proc_of :: "event \<Rightarrow> nat option" where
  "proc_of (Popen k c) = Some k"
| "proc_of (Readline k b) = Some k"
| "proc_of (Poll k st) = Some k"
| "proc_of (Print s) = None"

subsection \<open>Reading the observations of a subprocess\<close>




text \<open>
  The events of an iteration of the read loop of subprocess \<open>k\<close> that does not end the
  loop: a read, a poll that returns \<open>None\<close>, a printed line.
\<close>

fun running_event :: "nat \<Rightarrow> event \<Rightarrow> bool" where
  "running_event k (Readline j b) = (j = k)"
| "running_event k (Poll j st) = (j = k \<and> st = None)"
| "running_event k (Print s) = True"
| "running_event k (Popen j c) = False"





section \<open>Properties\<close>

subsection \<open>Literals and the version predicate\<close>

lemma lit_eq_iff [simp]: "lit a = lit b \<longleftrightarrow> a = b"
  by (simp add: lit_def inj_map_eq_map inj_of_char)

lemma lit_Nil [simp]: "lit [] = []"
  by (simp add: lit_def)

lemma lit_Nil_iff [simp]: "lit a = [] \<longleftrightarrow> a = []"
  by (simp add: lit_def)

lemma is_39_iff: "is_39 v \<longleftrightarrow> 3 < major v \<or> (major v = 3 \<and> 9 \<le> minor v)"
  by (auto simp: is_39_def)

subsection \<open>The install target list in closed form\<close>

lemma install_targets_eq:
  "install_targets v os_name =
     (if is_39 v then [lit ''Cython==0.29.21'', lit ''numpy==1.18.5''] else []) @
     common_targets @
     (if os_name = lit ''nt'' then [] else [lit ''-e python_modules/libraries/dagster-ge'']) @
     (if is_39 v then []
      else [lit ''-e python_modules/libraries/dagster-snowflake'',
            lit ''-e python_modules/libraries/dagstermill'',
            lit (''-e '' @ [CHR 0x22] @ ''examples/airline_demo[full]'' @ [CHR 0x22])])"
  by (simp add: install_targets_def Let_def)

lemma pins_notin_common:
  "lit ''Cython==0.29.21'' \<notin> set common_targets"
  "lit ''numpy==1.18.5'' \<notin> set common_targets"
  by (simp_all add: common_targets_def)

lemma ge_notin_common:
  "lit ''-e python_modules/libraries/dagster-ge'' \<notin> set common_targets"
  by (simp add: common_targets_def)

lemma old_notin_common:
  "lit ''-e python_modules/libraries/dagster-snowflake'' \<notin> set common_targets"
  "lit ''-e python_modules/libraries/dagstermill'' \<notin> set common_targets"
  "lit (''-e '' @ [CHR 0x22] @ ''examples/airline_demo[full]'' @ [CHR 0x22]) \<notin> set common_targets"
  by (simp_all add: common_targets_def)

lemma below_39_iff: "\<not> is_39 v \<longleftrightarrow> major v < 3 \<or> (major v = 3 \<and> minor v < 9)"
  by (auto simp: is_39_iff)

subsection \<open>The gates of the install target list\<close>

text \<open>
  Claim C1. For every interpreter whose version is at least (3, 9) the install target list
  contains the two pinned build-toolchain packages \<^verbatim>\<open>Cython==0.29.21\<close> and
  \<^verbatim>\<open>numpy==1.18.5\<close>; for every interpreter version below (3, 9) neither pin is in the
  list.
\<close>

theorem build_pins_iff_39:
  "(3 < major v \<or> (major v = 3 \<and> 9 \<le> minor v) \<longrightarrow>
      lit ''Cython==0.29.21'' \<in> set (install_targets v os_name) \<and>
      lit ''numpy==1.18.5'' \<in> set (install_targets v os_name)) \<and>
   (major v < 3 \<or> (major v = 3 \<and> minor v < 9) \<longrightarrow>
      lit ''Cython==0.29.21'' \<notin> set (install_targets v os_name) \<and>
      lit ''numpy==1.18.5'' \<notin> set (install_targets v os_name))"
  unfolding is_39_iff [symmetric] below_39_iff [symmetric]
  by (simp add: install_targets_eq pins_notin_common)

theorem build_pins_iff_39_witness:
  "(major (final_release 3 9) = 3 \<and> 9 \<le> minor (final_release 3 9)) \<and>
   lit ''Cython==0.29.21'' \<in> set (install_targets (final_release 3 9) (lit ''posix'')) \<and>
   lit ''numpy==1.18.5'' \<in> set (install_targets (final_release 3 9) (lit ''posix'')) \<and>
   (major (final_release 3 8) = 3 \<and> minor (final_release 3 8) < 9) \<and>
   lit ''Cython==0.29.21'' \<notin> set (install_targets (final_release 3 8) (lit ''posix'')) \<and>
   lit ''numpy==1.18.5'' \<notin> set (install_targets (final_release 3 8) (lit ''posix''))"
  using build_pins_iff_39 [of "final_release 3 9" "lit ''posix''"]
        build_pins_iff_39 [of "final_release 3 8" "lit ''posix''"]
  by (simp add: final_release_def)

text \<open>
  Claim C2. When the operating-system name equals \<^verbatim>\<open>nt\<close> the install target list does
  not contain the entry \<^verbatim>\<open>-e python_modules/libraries/dagster-ge\<close>; on any other
  operating-system name that entry is present.
\<close>

theorem dagster_ge_iff_not_nt:
  "(os_name = lit ''nt'' \<longrightarrow>
      lit ''-e python_modules/libraries/dagster-ge'' \<notin> set (install_targets v os_name)) \<and>
   (os_name \<noteq> lit ''nt'' \<longrightarrow>
      lit ''-e python_modules/libraries/dagster-ge'' \<in> set (install_targets v os_name))"
  by (simp add: install_targets_eq ge_notin_common)

theorem dagster_ge_iff_not_nt_witness:
  "lit ''-e python_modules/libraries/dagster-ge''
     \<notin> set (install_targets (final_release 3 8) (lit ''nt'')) \<and>
   lit ''posix'' \<noteq> lit ''nt'' \<and>
   lit ''-e python_modules/libraries/dagster-ge''
     \<in> set (install_targets (final_release 3 8) (lit ''posix''))"
  using dagster_ge_iff_not_nt [of "lit ''nt''" "final_release 3 8"]
        dagster_ge_iff_not_nt [of "lit ''posix''" "final_release 3 8"]
  by simp

text \<open>
  Claim C3. For every interpreter whose version is below (3, 9) the install target list
  contains the three entries for dagster-snowflake, dagstermill and the airline demo (the
  last one written with its double quotes, character 0x22); for every interpreter version
  at least (3, 9) none of the three is in the list.
\<close>

theorem old_only_targets_iff_below_39:
  "(major v < 3 \<or> (major v = 3 \<and> minor v < 9) \<longrightarrow>
      lit ''-e python_modules/libraries/dagster-snowflake'' \<in> set (install_targets v os_name) \<and>
      lit ''-e python_modules/libraries/dagstermill'' \<in> set (install_targets v os_name) \<and>
      lit (''-e '' @ [CHR 0x22] @ ''examples/airline_demo[full]'' @ [CHR 0x22])
        \<in> set (install_targets v os_name)) \<and>
   (3 < major v \<or> (major v = 3 \<and> 9 \<le> minor v) \<longrightarrow>
      lit ''-e python_modules/libraries/dagster-snowflake'' \<notin> set (install_targets v os_name) \<and>
      lit ''-e python_modules/libraries/dagstermill'' \<notin> set (install_targets v os_name) \<and>
      lit (''-e '' @ [CHR 0x22] @ ''examples/airline_demo[full]'' @ [CHR 0x22])
        \<notin> set (install_targets v os_name))"
  unfolding is_39_iff [symmetric] below_39_iff [symmetric]
  by (simp add: install_targets_eq old_notin_common [simplified])

theorem old_only_targets_iff_below_39_witness:
  "(major (final_release 3 8) = 3 \<and> minor (final_release 3 8) < 9) \<and>
   lit ''-e python_modules/libraries/dagster-snowflake''
     \<in> set (install_targets (final_release 3 8) (lit ''posix'')) \<and>
   lit ''-e python_modules/libraries/dagstermill''
     \<in> set (install_targets (final_release 3 8) (lit ''posix'')) \<and>
   lit (''-e '' @ [CHR 0x22] @ ''examples/airline_demo[full]'' @ [CHR 0x22])
     \<in> set (install_targets (final_release 3 8) (lit ''posix'')) \<and>
   3 < major (final_release 4 0) \<and>
   lit ''-e python_modules/libraries/dagster-snowflake''
     \<notin> set (install_targets (final_release 4 0) (lit ''posix'')) \<and>
   lit ''-e python_modules/libraries/dagstermill''
     \<notin> set (install_targets (final_release 4 0) (lit ''posix'')) \<and>
   lit (''-e '' @ [CHR 0x22] @ ''examples/airline_demo[full]'' @ [CHR 0x22])
     \<notin> set (install_targets (final_release 4 0) (lit ''posix''))"
  using old_only_targets_iff_below_39 [of "final_release 3 8" "lit ''posix''"]
        old_only_targets_iff_below_39 [of "final_release 4 0" "lit ''posix''"]
  by (simp add: final_release_def)

text \<open>
  Claim C9. For every interpreter version and operating-system name the install target
  list never holds a 3.9 build-toolchain pin together with one of the three entries added
  only below version 3.9.
\<close>

theorem version_gates_exclusive:
  "\<not> ((lit ''Cython==0.29.21'' \<in> set (install_targets v os_name) \<or>
        lit ''numpy==1.18.5'' \<in> set (install_targets v os_name)) \<and>
       (lit ''-e python_modules/libraries/dagster-snowflake'' \<in> set (install_targets v os_name) \<or>
        lit ''-e python_modules/libraries/dagstermill'' \<in> set (install_targets v os_name) \<or>
        lit (''-e '' @ [CHR 0x22] @ ''examples/airline_demo[full]'' @ [CHR 0x22])
          \<in> set (install_targets v os_name)))"
  by (simp add: install_targets_eq pins_notin_common old_notin_common [simplified])

subsection \<open>The commands in closed form\<close>

lemma first_cmd_eq:
  "first_cmd quiet =
     [lit ''pip'', lit ''--no-cache-dir'', lit ''install'', lit ''pyspark>=3.0.1''] @
     (if quiet = [] then [] else [quiet])"
  by (simp add: first_cmd_def Let_def)

lemma second_cmd_eq:
  "second_cmd quiet ts =
     ([lit ''pip'', lit ''install'', lit ''--no-deps''] @ ts @ (if quiet = [] then [] else [quiet])) @
     [lit ''&&''] @
     ([lit ''pip'', lit ''install''] @ ts @ (if quiet = [] then [] else [quiet]))"
  by (simp add: second_cmd_def Let_def)

lemma join_append:
  "xs \<noteq> [] \<Longrightarrow> ys \<noteq> [] \<Longrightarrow> join sep (xs @ ys) = join sep xs @ sep @ join sep ys"
proof (induction sep xs rule: join.induct)
  case (1 sep)
  then show ?case by simp
next
  case (2 sep x)
  then show ?case by (cases ys) simp_all
next
  case (3 sep x y ys')
  then show ?case by simp
qed

lemma words_notin_common:
  "lit ''pip'' \<notin> set common_targets"
  "lit ''--no-cache-dir'' \<notin> set common_targets"
  "lit ''install'' \<notin> set common_targets"
  "lit ''pyspark>=3.0.1'' \<notin> set common_targets"
  "lit ''&&'' \<notin> set common_targets"
  "lit ''--no-deps'' \<notin> set common_targets"
  by (simp_all add: common_targets_def)

lemma words_notin_targets:
  "lit ''pip'' \<notin> set (install_targets v os_name)"
  "lit ''--no-cache-dir'' \<notin> set (install_targets v os_name)"
  "lit ''install'' \<notin> set (install_targets v os_name)"
  "lit ''pyspark>=3.0.1'' \<notin> set (install_targets v os_name)"
  "lit ''&&'' \<notin> set (install_targets v os_name)"
  "lit ''--no-deps'' \<notin> set (install_targets v os_name)"
  by (simp_all add: install_targets_eq words_notin_common)

lemma popen_calls_append: "popen_calls (xs @ ys) = popen_calls xs @ popen_calls ys"
  by (induction xs rule: popen_calls.induct) simp_all

lemma popen_calls_read_loop: "popen_calls (fst (read_loop k obs)) = []"
  by (induction k obs rule: read_loop.induct)
     (auto simp: popen_calls_append split: option.splits prod.splits)

lemma main_eq:
  "main quiet v os_name proc1 proc2 =
    (if snd (read_loop 1 proc1) \<noteq> Returned
     then ([Popen 1 (first_popen quiet), Print (join (lit '' '') (first_cmd quiet))] @
           fst (read_loop 1 proc1), snd (read_loop 1 proc1))
     else ([Popen 1 (first_popen quiet), Print (join (lit '' '') (first_cmd quiet))] @
           fst (read_loop 1 proc1) @
           [Popen 2 (second_popen quiet v os_name),
            Print (join (lit '' '') (second_cmd quiet (install_targets v os_name)))] @
           fst (read_loop 2 proc2), snd (read_loop 2 proc2)))"
  by (simp add: main_def Let_def split: prod.splits)

lemma popen_calls_main:
  "popen_calls (fst (main quiet v os_name proc1 proc2)) =
     first_popen quiet #
     (if snd (read_loop 1 proc1) = Returned then [second_popen quiet v os_name] else [])"
  by (simp add: main_eq popen_calls_append popen_calls_read_loop)

lemma hd_main:
  "hd (fst (main quiet v os_name proc1 proc2)) = Popen 1 (first_popen quiet)"
  by (simp add: main_eq)

subsection \<open>The first command\<close>

text \<open>
  Claim C4. The first installer invocation installs exactly one external package: its
  command is \<^verbatim>\<open>pip --no-cache-dir install pyspark>=3.0.1\<close>, followed by the quiet
  argument when that is non-empty, and no other install target appears in it. The first
  event of main is the Popen call with that argument vector; an element of the command
  that is an install target can only be the quiet argument itself.
\<close>

theorem first_invocation_single_package:
  "hd (fst (main quiet v os_name proc1 proc2)) =
     Popen 1 \<lparr>args = Argv (first_cmd quiet), stdout = PIPE, stderr = STDOUT, shell = False\<rparr> \<and>
   first_cmd quiet =
     [lit ''pip'', lit ''--no-cache-dir'', lit ''install'', lit ''pyspark>=3.0.1''] @
     (if quiet = [] then [] else [quiet]) \<and>
   (\<forall>t \<in> set (first_cmd quiet). t \<in> set (install_targets v os_name) \<longrightarrow> t = quiet)"
proof (intro conjI ballI impI)
  show "hd (fst (main quiet v os_name proc1 proc2)) =
     Popen 1 \<lparr>args = Argv (first_cmd quiet), stdout = PIPE, stderr = STDOUT, shell = False\<rparr>"
    by (simp only: hd_main first_popen_def)
  show "first_cmd quiet =
     [lit ''pip'', lit ''--no-cache-dir'', lit ''install'', lit ''pyspark>=3.0.1''] @
     (if quiet = [] then [] else [quiet])"
    by (rule first_cmd_eq)
next
  fix t
  assume "t \<in> set (first_cmd quiet)" and "t \<in> set (install_targets v os_name)"
  then show "t = quiet"
    using words_notin_targets(1-4) [of v os_name]
    by (auto simp: first_cmd_eq split: if_splits)
qed


theorem first_invocation_single_package_witness:
  "lit ''awscli'' \<in> set (first_cmd (lit ''awscli'')) \<and>
   lit ''awscli'' \<in> set (install_targets (final_release 3 8) (lit ''posix'')) \<and>
   first_cmd (lit ''awscli'') =
     [lit ''pip'', lit ''--no-cache-dir'', lit ''install'', lit ''pyspark>=3.0.1'', lit ''awscli'']"
proof -
  have "lit ''awscli'' \<in> set common_targets"
    by (simp add: common_targets_def)
  then have "lit ''awscli'' \<in> set (install_targets (final_release 3 8) (lit ''posix''))"
    by (simp add: install_targets_eq)
  moreover have "first_cmd (lit ''awscli'') =
     [lit ''pip'', lit ''--no-cache-dir'', lit ''install'', lit ''pyspark>=3.0.1'', lit ''awscli'']"
    using first_invocation_single_package
            [of "lit ''awscli''" "final_release 3 8" "lit ''posix''" "[]" "[]"]
    by simp
  ultimately show ?thesis by simp
qed

subsection \<open>The combined command\<close>

lemma popen_notin_read_loop: "Popen j c \<notin> set (fst (read_loop k obs))"
  by (induction k obs rule: read_loop.induct) (auto split: option.splits prod.splits)

lemma popen_in_main:
  "Popen k c \<in> set (fst (main quiet v os_name proc1 proc2)) \<longleftrightarrow>
     (k = 1 \<and> c = first_popen quiet) \<or>
     (k = 2 \<and> c = second_popen quiet v os_name \<and> snd (read_loop 1 proc1) = Returned)"
  by (auto simp: main_eq popen_notin_read_loop)

lemma lit_amp: "lit '' && '' = lit '' '' @ lit ''&&'' @ lit '' ''"
  by (simp add: lit_def)

text \<open>
  Claim C5. The combined second command consists of exactly two pip install invocations
  joined by the shell conjunction \<^verbatim>\<open>&&\<close>: the first with \<^verbatim>\<open>--no-deps\<close> followed by the
  full install target list, then the second without \<^verbatim>\<open>--no-deps\<close> followed by the same
  list. The quiet argument of claim C6, when non-empty, closes each invocation. Neither
  \<^verbatim>\<open>&&\<close> nor \<^verbatim>\<open>--no-deps\<close> is an install target, and the string handed to the shell
  is the first invocation, the conjunction between spaces, and the second invocation.
\<close>

theorem combined_command_shape:
  "second_cmd quiet (install_targets v os_name) =
     ([lit ''pip'', lit ''install'', lit ''--no-deps''] @ install_targets v os_name @
        (if quiet = [] then [] else [quiet])) @
     [lit ''&&''] @
     ([lit ''pip'', lit ''install''] @ install_targets v os_name @
        (if quiet = [] then [] else [quiet])) \<and>
   join (lit '' '') (second_cmd quiet (install_targets v os_name)) =
     join (lit '' '')
       ([lit ''pip'', lit ''install'', lit ''--no-deps''] @ install_targets v os_name @
          (if quiet = [] then [] else [quiet])) @
     lit '' && '' @
     join (lit '' '')
       ([lit ''pip'', lit ''install''] @ install_targets v os_name @
          (if quiet = [] then [] else [quiet])) \<and>
   lit ''--no-deps'' \<notin> set ([lit ''pip'', lit ''install''] @ install_targets v os_name) \<and>
   lit ''&&'' \<notin> set (install_targets v os_name) \<and>
   (\<forall>c. Popen 2 c \<in> set (fst (main quiet v os_name proc1 proc2)) \<longrightarrow>
      args c = Shell_Line (join (lit '' '') (second_cmd quiet (install_targets v os_name))) \<and>
      shell c)"
proof (intro conjI allI impI)
  let ?ts = "install_targets v os_name"
  let ?q = "if quiet = [] then [] else [quiet]"
  let ?a = "[lit ''pip'', lit ''install'', lit ''--no-deps''] @ ?ts @ ?q"
  let ?b = "[lit ''pip'', lit ''install''] @ ?ts @ ?q"
  show shape: "second_cmd quiet ?ts = ?a @ [lit ''&&''] @ ?b"
    by (rule second_cmd_eq)
  have "join (lit '' '') (?a @ ([lit ''&&''] @ ?b)) =
        join (lit '' '') ?a @ lit '' '' @ join (lit '' '') ([lit ''&&''] @ ?b)"
    by (rule join_append) simp_all
  also have "join (lit '' '') ([lit ''&&''] @ ?b) =
        join (lit '' '') [lit ''&&''] @ lit '' '' @ join (lit '' '') ?b"
    by (rule join_append) simp_all
  finally show "join (lit '' '') (second_cmd quiet ?ts) =
        join (lit '' '') ?a @ lit '' && '' @ join (lit '' '') ?b"
    by (simp only: shape lit_amp join.simps append_assoc)
  show "lit ''--no-deps'' \<notin> set ([lit ''pip'', lit ''install''] @ ?ts)"
    by (simp add: words_notin_targets)
  show "lit ''&&'' \<notin> set ?ts"
    by (rule words_notin_targets)
next
  fix c
  assume "Popen 2 c \<in> set (fst (main quiet v os_name proc1 proc2))"
  then have c: "c = second_popen quiet v os_name"
    by (simp add: popen_in_main)
  show "args c = Shell_Line (join (lit '' '') (second_cmd quiet (install_targets v os_name)))"
    by (simp add: c second_popen_def)
  show "shell c"
    by (simp add: c second_popen_def)
qed

theorem combined_command_shape_witness:
  "Popen 2 (second_popen [] (final_release 3 8) (lit ''posix''))
     \<in> set (fst (main [] (final_release 3 8) (lit ''posix'') [([], Some 0)] [])) \<and>
   args (second_popen [] (final_release 3 8) (lit ''posix'')) =
     Shell_Line (join (lit '' '')
       (second_cmd [] (install_targets (final_release 3 8) (lit ''posix'')))) \<and>
   shell (second_popen [] (final_release 3 8) (lit ''posix''))"
proof -
  have "Popen 2 (second_popen [] (final_release 3 8) (lit ''posix''))
     \<in> set (fst (main [] (final_release 3 8) (lit ''posix'') [([], Some 0)] []))"
    by (simp add: popen_in_main)
  with combined_command_shape [of "[]" "final_release 3 8" "lit ''posix''" "[([], Some 0)]" "[]"]
  show ?thesis by blast
qed

subsection \<open>The quiet argument\<close>

text \<open>
  Claim C6. The quiet value is the script's single optional positional argument (the
  empty string when absent). A non-empty quiet string is appended once to the first pip
  command and once after each of the two pip invocations of the combined command; an
  empty one is appended to none of them. This holds of the commands that the script
  runs: the first Popen call of a run with the argument carries it as its last word, and
  the shell line of the second Popen call carries it after each install target list; a
  run without the argument issues both commands without it.
\<close>

theorem quiet_pass_through:
  "script [] = main (lit '''') \<and>
   script [prog] = main (lit '''') \<and>
   script (prog # quiet # rest) = main quiet \<and>
   (quiet \<noteq> [] \<longrightarrow>
      first_cmd quiet =
        [lit ''pip'', lit ''--no-cache-dir'', lit ''install'', lit ''pyspark>=3.0.1''] @ [quiet] \<and>
      second_cmd quiet ts =
        [lit ''pip'', lit ''install'', lit ''--no-deps''] @ ts @ [quiet] @
        [lit ''&&'', lit ''pip'', lit ''install''] @ ts @ [quiet] \<and>
      hd (fst (script (prog # quiet # rest) v os_name proc1 proc2)) =
        Popen 1
          \<lparr>args = Argv [lit ''pip'', lit ''--no-cache-dir'', lit ''install'',
                        lit ''pyspark>=3.0.1'', quiet],
           stdout = PIPE, stderr = STDOUT, shell = False\<rparr> \<and>
      (\<forall>c. Popen 2 c \<in> set (fst (script (prog # quiet # rest) v os_name proc1 proc2)) \<longrightarrow>
         args c =
           Shell_Line (join (lit '' '')
             ([lit ''pip'', lit ''install'', lit ''--no-deps''] @
              install_targets v os_name @ [quiet] @
              [lit ''&&'', lit ''pip'', lit ''install''] @
              install_targets v os_name @ [quiet])))) \<and>
   first_cmd [] = [lit ''pip'', lit ''--no-cache-dir'', lit ''install'', lit ''pyspark>=3.0.1''] \<and>
   second_cmd [] ts =
     [lit ''pip'', lit ''install'', lit ''--no-deps''] @ ts @
     [lit ''&&'', lit ''pip'', lit ''install''] @ ts \<and>
   hd (fst (script [prog] v os_name proc1 proc2)) =
     Popen 1
       \<lparr>args = Argv [lit ''pip'', lit ''--no-cache-dir'', lit ''install'',
                     lit ''pyspark>=3.0.1''],
        stdout = PIPE, stderr = STDOUT, shell = False\<rparr> \<and>
   (\<forall>c. Popen 2 c \<in> set (fst (script [prog] v os_name proc1 proc2)) \<longrightarrow>
      args c =
        Shell_Line (join (lit '' '')
          ([lit ''pip'', lit ''install'', lit ''--no-deps''] @
           install_targets v os_name @
           [lit ''&&'', lit ''pip'', lit ''install''] @
           install_targets v os_name)))"
proof -
  have absent: "script [] = main (lit '''')" "script [prog] = main (lit '''')"
    by (simp_all add: script_def)
  have present: "script (prog # quiet # rest) = main quiet"
    by (simp add: script_def)
  have cmds: "quiet \<noteq> [] \<longrightarrow>
      first_cmd quiet =
        [lit ''pip'', lit ''--no-cache-dir'', lit ''install'', lit ''pyspark>=3.0.1''] @ [quiet] \<and>
      second_cmd quiet ts =
        [lit ''pip'', lit ''install'', lit ''--no-deps''] @ ts @ [quiet] @
        [lit ''&&'', lit ''pip'', lit ''install''] @ ts @ [quiet]"
    by (simp add: first_cmd_eq second_cmd_eq)
  have cmds0:
    "first_cmd [] = [lit ''pip'', lit ''--no-cache-dir'', lit ''install'', lit ''pyspark>=3.0.1'']"
    "second_cmd [] ts =
       [lit ''pip'', lit ''install'', lit ''--no-deps''] @ ts @
       [lit ''&&'', lit ''pip'', lit ''install''] @ ts"
    by (simp_all add: first_cmd_eq second_cmd_eq)
  have first: "quiet \<noteq> [] \<longrightarrow>
      hd (fst (script (prog # quiet # rest) v os_name proc1 proc2)) =
        Popen 1
          \<lparr>args = Argv [lit ''pip'', lit ''--no-cache-dir'', lit ''install'',
                        lit ''pyspark>=3.0.1'', quiet],
           stdout = PIPE, stderr = STDOUT, shell = False\<rparr>"
    by (simp add: present hd_main first_popen_def first_cmd_eq)
  have second: "quiet \<noteq> [] \<longrightarrow>
      (\<forall>c. Popen 2 c \<in> set (fst (script (prog # quiet # rest) v os_name proc1 proc2)) \<longrightarrow>
         args c =
           Shell_Line (join (lit '' '')
             ([lit ''pip'', lit ''install'', lit ''--no-deps''] @
              install_targets v os_name @ [quiet] @
              [lit ''&&'', lit ''pip'', lit ''install''] @
              install_targets v os_name @ [quiet])))"
    by (simp add: present popen_in_main second_popen_def second_cmd_eq)
  have first0:
    "hd (fst (script [prog] v os_name proc1 proc2)) =
       Popen 1
         \<lparr>args = Argv [lit ''pip'', lit ''--no-cache-dir'', lit ''install'',
                       lit ''pyspark>=3.0.1''],
          stdout = PIPE, stderr = STDOUT, shell = False\<rparr>"
    by (simp add: absent hd_main first_popen_def first_cmd_eq)
  have second0:
    "\<forall>c. Popen 2 c \<in> set (fst (script [prog] v os_name proc1 proc2)) \<longrightarrow>
       args c =
         Shell_Line (join (lit '' '')
           ([lit ''pip'', lit ''install'', lit ''--no-deps''] @
            install_targets v os_name @
            [lit ''&&'', lit ''pip'', lit ''install''] @
            install_targets v os_name))"
    by (simp add: absent popen_in_main second_popen_def second_cmd_eq)
  from absent present cmds cmds0 first second first0 second0 show ?thesis
    by blast
qed

theorem quiet_pass_through_witness:
  "lit ''-q'' \<noteq> [] \<and>
   script [lit ''install_dev_python_modules.py'', lit ''-q''] = main (lit ''-q'') \<and>
   first_cmd (lit ''-q'') =
     [lit ''pip'', lit ''--no-cache-dir'', lit ''install'', lit ''pyspark>=3.0.1''] @ [lit ''-q''] \<and>
   second_cmd (lit ''-q'') [lit ''awscli''] =
     [lit ''pip'', lit ''install'', lit ''--no-deps''] @ [lit ''awscli''] @ [lit ''-q''] @
     [lit ''&&'', lit ''pip'', lit ''install''] @ [lit ''awscli''] @ [lit ''-q''] \<and>
   hd (fst (script [lit ''install_dev_python_modules.py'', lit ''-q'']
              (final_release 3 8) (lit ''posix'') [([], Some 0)] [])) =
     Popen 1
       \<lparr>args = Argv [lit ''pip'', lit ''--no-cache-dir'', lit ''install'',
                     lit ''pyspark>=3.0.1'', lit ''-q''],
        stdout = PIPE, stderr = STDOUT, shell = False\<rparr> \<and>
   Popen 2 (second_popen (lit ''-q'') (final_release 3 8) (lit ''posix''))
     \<in> set (fst (script [lit ''install_dev_python_modules.py'', lit ''-q'']
                     (final_release 3 8) (lit ''posix'') [([], Some 0)] [])) \<and>
   args (second_popen (lit ''-q'') (final_release 3 8) (lit ''posix'')) =
     Shell_Line (join (lit '' '')
       ([lit ''pip'', lit ''install'', lit ''--no-deps''] @
        install_targets (final_release 3 8) (lit ''posix'') @ [lit ''-q''] @
        [lit ''&&'', lit ''pip'', lit ''install''] @
        install_targets (final_release 3 8) (lit ''posix'') @ [lit ''-q'']))"
proof -
  have reached:
    "Popen 2 (second_popen (lit ''-q'') (final_release 3 8) (lit ''posix''))
       \<in> set (fst (script [lit ''install_dev_python_modules.py'', lit ''-q'']
                       (final_release 3 8) (lit ''posix'') [([], Some 0)] []))"
    by (simp add: script_def popen_in_main)
  have nonempty: "lit ''-q'' \<noteq> []"
    by simp
  from quiet_pass_through
         [of "lit ''install_dev_python_modules.py''" "lit ''-q''" "[]" "[lit ''awscli'']"
             "final_release 3 8" "lit ''posix''" "[([], Some 0)]" "[]"]
       reached nonempty
  show ?thesis
    by blast
qed

subsection \<open>Determinism of the commands\<close>

text \<open>
  Claim C10. Command construction is deterministic: two runs with the same interpreter
  version, operating-system name and quiet argument issue the same Popen calls, whatever
  the subprocesses do (the only other input of main). Each run issues at least the first
  call, and the calls that both runs issue agree position by position.
\<close>

theorem commands_deterministic:
  "popen_calls (fst (main quiet v os_name proc1 proc2)) \<noteq> [] \<and>
   popen_calls (fst (main quiet v os_name proc1' proc2')) \<noteq> [] \<and>
   (\<forall>i. i < length (popen_calls (fst (main quiet v os_name proc1 proc2))) \<and>
        i < length (popen_calls (fst (main quiet v os_name proc1' proc2'))) \<longrightarrow>
        popen_calls (fst (main quiet v os_name proc1 proc2)) ! i =
        popen_calls (fst (main quiet v os_name proc1' proc2')) ! i)"
  by (auto simp: popen_calls_main nth_Cons split: nat.splits)

theorem commands_deterministic_witness:
  "1 < length (popen_calls (fst (main (lit ''-q'') (final_release 3 8) (lit ''posix'')
                                   [([], Some 0)] []))) \<and>
   1 < length (popen_calls (fst (main (lit ''-q'') (final_release 3 8) (lit ''posix'')
                                   [([0x41, 0x0A], None), ([], Some 1)] [([], Some 2)]))) \<and>
   popen_calls (fst (main (lit ''-q'') (final_release 3 8) (lit ''posix'')
                       [([], Some 0)] [])) ! 1 =
   popen_calls (fst (main (lit ''-q'') (final_release 3 8) (lit ''posix'')
                       [([0x41, 0x0A], None), ([], Some 1)] [([], Some 2)])) ! 1"
proof -
  have "snd (read_loop 1 [([0x41, 0x0A], None), ([], Some 1)]) = Returned"
    by (simp add: decode_def utf8_char_def)
  then have
    "1 < length (popen_calls (fst (main (lit ''-q'') (final_release 3 8) (lit ''posix'')
                                   [([], Some 0)] [])))"
    "1 < length (popen_calls (fst (main (lit ''-q'') (final_release 3 8) (lit ''posix'')
                                   [([0x41, 0x0A], None), ([], Some 1)] [([], Some 2)])))"
    by (simp_all add: popen_calls_main)
  with commands_deterministic
         [of "lit ''-q''" "final_release 3 8" "lit ''posix''" "[([], Some 0)]" "[]"
             "[([0x41, 0x0A], None), ([], Some 1)]" "[([], Some 2)]"]
  show ?thesis by blast
qed

subsection \<open>The read loop and the log of main\<close>







lemma running_eventD:
  "running_event k e \<Longrightarrow>
     (proc_of e = Some k \<or> proc_of e = None) \<and> (\<forall>j rc. e \<noteq> Poll j (Some rc)) \<and>
     (\<forall>j c. e \<noteq> Popen j c)"
  by (cases e) auto


subsection \<open>Exit codes, exceptions and the console\<close>






subsection \<open>The order of the two subprocesses\<close>
























end
